theory Spec2Isabelle
  imports Complex_Main "HOL-Library.AList" "HOL-Library.Multiset"
begin

section \<open>Data model\<close>

text \<open>
  The program works on the GeoJSON document returned by the earthquake feed, parsed into
  nested dictionaries and lists. The dictionaries with a fixed set of keys are records
  here, one field per key the program reads:
  \<^item> \<open>data["metadata"]["count"]\<close> and \<open>data["features"]\<close>;
  \<^item> \<open>earthquake["properties"]["mag"]\<close> and \<open>earthquake["properties"]["time"]\<close>;
  \<^item> \<open>earthquake["geometry"]["coordinates"]\<close>, a list that the program indexes.

  A magnitude or a coordinate is a Python float; the record holds the real number that
  float stands for, which is enough to compare two of them. The time stamp is an integer
  number of milliseconds. A document that lacks one of the keys, or holds a value of
  another JSON type there (\<open>null\<close>, a string, \<open>NaN\<close>), is outside this model.
\<close>

record properties =
  mag :: real
  time :: int

record geometry =
  coordinates :: "real list"

record earthquake =
  properties :: properties
  geometry :: geometry

record metadata =
  count_md :: int

record data =
  metadata :: metadata
  features :: "earthquake list"

text \<open>
  The exceptions the program can raise on such a document. \<open>FromtimestampError\<close> stands
  for whatever \<open>date.fromtimestamp\<close> raises on a time stamp it cannot convert
  (\<open>OverflowError\<close>, \<open>OSError\<close> or \<open>ValueError\<close>, depending on the platform).
\<close>

datatype py_error = IndexError | KeyError | ZeroDivisionError | FromtimestampError

text \<open>Python's \<open>xs[i]\<close> for a non-negative literal index \<open>i\<close>.\<close>

definition subscript :: "'a list \<Rightarrow> nat \<Rightarrow> py_error + 'a" where
  "subscript xs i = (if i < length xs then Inr (xs ! i) else Inl IndexError)"

section \<open>Field accessors\<close>

definition count_earthquakes :: "data \<Rightarrow> int" where
  "count_earthquakes d = count_md (metadata d)"

definition get_magnitude :: "earthquake \<Rightarrow> real" where
  "get_magnitude e = mag (properties e)"

definition get_location :: "earthquake \<Rightarrow> py_error + (real \<times> real)" where
  "get_location e =
     (let cs = coordinates (geometry e) in
      case subscript cs 0 of
        Inl err \<Rightarrow> Inl err
      | Inr c0 \<Rightarrow> (case subscript cs 1 of
                    Inl err \<Rightarrow> Inl err
                  | Inr c1 \<Rightarrow> Inr (c0, c1)))"

section \<open>The strongest earthquake\<close>

text \<open>
  The \<open>for\<close> loop of \<open>get_maximum\<close>, with the two variables it updates as the state:
  the running maximum and the location that goes with it.
\<close>

fun get_maximum_loop ::
  "real \<times> (real \<times> real) \<Rightarrow> earthquake list \<Rightarrow> py_error + (real \<times> (real \<times> real))" where
  "get_maximum_loop (current_max_magnitude, current_max_location) [] =
     Inr (current_max_magnitude, current_max_location)"
| "get_maximum_loop (current_max_magnitude, current_max_location) (item # items) =
     (let magnitude = get_magnitude item in
      if magnitude > current_max_magnitude then
        (case get_location item of
           Inl err \<Rightarrow> Inl err
         | Inr loc \<Rightarrow> get_maximum_loop (magnitude, loc) items)
      else get_maximum_loop (current_max_magnitude, current_max_location) items)"

definition get_maximum :: "data \<Rightarrow> py_error + (real \<times> (real \<times> real))" where
  "get_maximum d =
     (case subscript (features d) 0 of
        Inl err \<Rightarrow> Inl err
      | Inr first \<Rightarrow>
          (case get_location first of
             Inl err \<Rightarrow> Inl err
           | Inr loc \<Rightarrow> get_maximum_loop (get_magnitude first, loc) (features d)))"

section \<open>Earthquakes per year\<close>

text \<open>
  \<open>get_year\<close> hands the time stamp, divided by 1000, to \<open>date.fromtimestamp\<close> of Python's
  standard library and reads the \<open>year\<close> attribute of the date it returns. The library
  function is not part of the program and depends on the time zone of the machine, so it
  is a parameter here: a function from seconds since the epoch to a calendar date, or to
  \<open>None\<close> where the library raises.
\<close>

record date =
  year :: int
  month :: int
  day :: int

type_synonym fromtimestamp = "real \<Rightarrow> date option"

definition get_year :: "fromtimestamp \<Rightarrow> earthquake \<Rightarrow> py_error + int" where
  "get_year fromtimestamp earthquake =
     (let timestamp = time (properties earthquake) in
      case fromtimestamp (real_of_int timestamp / 1000) of
        None \<Rightarrow> Inl FromtimestampError
      | Some d \<Rightarrow> Inr (year d))"

text \<open>
  A Python \<open>dict\<close> keeps its keys in the order of their first insertion, and iterating
  over it yields them in that order. It is an association list with distinct keys here:
  \<open>map_of\<close> looks a key up, \<open>AList.update\<close> replaces the value of a key in place or appends
  a new key at the end. \<open>dict_keys\<close> is the sequence \<open>for item in dict\<close> runs through.
\<close>

type_synonym year_dict = "(int \<times> real list) list"

definition dict_contains :: "('k \<times> 'v) list \<Rightarrow> 'k \<Rightarrow> bool" where
  "dict_contains dict k = (map_of dict k \<noteq> None)"

definition dict_get :: "('k \<times> 'v) list \<Rightarrow> 'k \<Rightarrow> py_error + 'v" where
  "dict_get dict k = (case map_of dict k of None \<Rightarrow> Inl KeyError | Some v \<Rightarrow> Inr v)"

definition dict_keys :: "('k \<times> 'v) list \<Rightarrow> 'k list" where
  "dict_keys dict = map fst dict"

text \<open>
  One round of the loop of \<open>get_magnitudes_per_year\<close>. The source calls \<open>get_year(quake)\<close>
  for the membership test and again for the subscript; both calls are kept.
\<close>

definition add_quake :: "fromtimestamp \<Rightarrow> year_dict \<Rightarrow> earthquake \<Rightarrow> py_error + year_dict" where
  "add_quake fromtimestamp year_dict quake =
     (case get_year fromtimestamp quake of
        Inl err \<Rightarrow> Inl err
      | Inr y \<Rightarrow>
          if dict_contains year_dict y then
            (case get_year fromtimestamp quake of
               Inl err \<Rightarrow> Inl err
             | Inr y' \<Rightarrow>
                 (case dict_get year_dict y' of
                    Inl err \<Rightarrow> Inl err
                  | Inr mags \<Rightarrow> Inr (AList.update y' (mags @ [get_magnitude quake]) year_dict)))
          else
            (case get_year fromtimestamp quake of
               Inl err \<Rightarrow> Inl err
             | Inr y' \<Rightarrow> Inr (AList.update y' [get_magnitude quake] year_dict)))"

fun get_magnitudes_per_year_loop ::
  "fromtimestamp \<Rightarrow> year_dict \<Rightarrow> earthquake list \<Rightarrow> py_error + year_dict" where
  "get_magnitudes_per_year_loop fromtimestamp year_dict [] = Inr year_dict"
| "get_magnitudes_per_year_loop fromtimestamp year_dict (quake # quakes) =
     (case add_quake fromtimestamp year_dict quake of
        Inl err \<Rightarrow> Inl err
      | Inr year_dict' \<Rightarrow> get_magnitudes_per_year_loop fromtimestamp year_dict' quakes)"

definition get_magnitudes_per_year ::
  "fromtimestamp \<Rightarrow> earthquake list \<Rightarrow> py_error + year_dict" where
  "get_magnitudes_per_year fromtimestamp earthquakes =
     get_magnitudes_per_year_loop fromtimestamp [] earthquakes"

text \<open>
  The two plotting functions build a list of years and a list of values of the same
  length and hand both to \<open>matplotlib\<close>, which draws them. The model returns the two
  lists; drawing is not modelled.

  \<open>plot_average_magnitude_per_year\<close> computes with floats: \<open>value += mag\<close> and
  \<open>value / len(mag_list)\<close> round their results, and a sum may overflow to \<open>inf\<close>. The
  arithmetic of the machine is not part of the program, so it is a parameter as well: a
  type \<open>'f\<close> of the values a float variable can hold and three operations on it,
  \<^item> \<open>fzero\<close>, the \<open>0\<close> that \<open>value\<close> starts from,
  \<^item> \<open>fadd value mag\<close>, the value of \<open>value + mag\<close>,
  \<^item> \<open>fdiv value n\<close>, the value of \<open>value / n\<close> for a length \<open>n\<close> other than 0.
  No law is assumed of them: the addition need not be associative or commutative.

  The inner loop adds the magnitudes of a year to \<open>value\<close> in the order of the list, which
  is \<open>foldl\<close>. The division by \<open>len(mag_list)\<close> raises \<open>ZeroDivisionError\<close> on an empty
  list.
\<close>

record 'f float_ops =
  fzero :: 'f
  fadd :: "'f \<Rightarrow> real \<Rightarrow> 'f"
  fdiv :: "'f \<Rightarrow> nat \<Rightarrow> 'f"

fun average_loop ::
  "'f float_ops \<Rightarrow> year_dict \<Rightarrow> int list \<Rightarrow> 'f list \<Rightarrow> py_error + 'f list" where
  "average_loop float dict [] avg_list = Inr avg_list"
| "average_loop float dict (y # year_list) avg_list =
     (case dict_get dict y of
        Inl err \<Rightarrow> Inl err
      | Inr mag_list \<Rightarrow>
          (let val = foldl (\<lambda>val mag. fadd float val mag) (fzero float) mag_list in
           if length mag_list = 0 then Inl ZeroDivisionError
           else average_loop float dict year_list
                  (avg_list @ [fdiv float val (length mag_list)])))"

definition plot_average_magnitude_per_year ::
  "'f float_ops \<Rightarrow> fromtimestamp \<Rightarrow> earthquake list \<Rightarrow> py_error + (int list \<times> 'f list)" where
  "plot_average_magnitude_per_year float fromtimestamp earthquakes =
     (case get_magnitudes_per_year fromtimestamp earthquakes of
        Inl err \<Rightarrow> Inl err
      | Inr dict \<Rightarrow>
          (let year_list = sort (dict_keys dict) in
           case average_loop float dict year_list [] of
             Inl err \<Rightarrow> Inl err
           | Inr avg_list \<Rightarrow> Inr (year_list, avg_list)))"

fun number_loop :: "year_dict \<Rightarrow> int list \<Rightarrow> nat list \<Rightarrow> py_error + nat list" where
  "number_loop dict [] num_list = Inr num_list"
| "number_loop dict (y # year_list) num_list =
     (case dict_get dict y of
        Inl err \<Rightarrow> Inl err
      | Inr mag_list \<Rightarrow> number_loop dict year_list (num_list @ [length mag_list]))"

definition plot_number_per_year ::
  "fromtimestamp \<Rightarrow> earthquake list \<Rightarrow> py_error + (int list \<times> nat list)" where
  "plot_number_per_year fromtimestamp earthquakes =
     (case get_magnitudes_per_year fromtimestamp earthquakes of
        Inl err \<Rightarrow> Inl err
      | Inr dict \<Rightarrow>
          (let year_list = sort (dict_keys dict) in
           case number_loop dict year_list [] of
             Inl err \<Rightarrow> Inl err
           | Inr num_list \<Rightarrow> Inr (year_list, num_list)))"

section \<open>A machine to run the program on\<close>

text \<open>
  To evaluate the functions on concrete documents, one conversion is fixed: a machine
  whose time zone is UTC. Its \<open>date.fromtimestamp\<close> rounds the seconds down to a whole
  number, counts the days since 1 January 1970 and reads the date off the Gregorian
  calendar; it raises outside the years 1 to 9999 that a Python \<open>date\<close> can hold.
\<close>

definition civil_from_days :: "int \<Rightarrow> date" where
  "civil_from_days n =
     (let z = n + 719468;
          era = z div 146097;
          doe = z mod 146097;
          yoe = (doe - doe div 1460 + doe div 36524 - doe div 146096) div 365;
          doy = doe - (365 * yoe + yoe div 4 - yoe div 100);
          mp = (5 * doy + 2) div 153;
          m = (if mp < 10 then mp + 3 else mp - 9)
      in \<lparr>year = yoe + era * 400 + (if m \<le> 2 then 1 else 0),
          month = m,
          day = doy - (153 * mp + 2) div 5 + 1\<rparr>)"

definition fromtimestamp_utc :: fromtimestamp where
  "fromtimestamp_utc t =
     (let d = civil_from_days (\<lfloor>t\<rfloor> div 86400) in
      if 1 \<le> year d \<and> year d \<le> 9999 then Some d else None)"

text \<open>
  The floats of that machine are IEEE 754 double precision numbers: 53 significant bits,
  exponents from \<open>-1022\<close> to 1023, results rounded to the nearest float and, half way
  between two floats, to the one whose last bit is 0; a result that rounds to the size
  \<open>2 ^ 1024\<close> or more is an infinity. A float is \<open>n * 2 ^ (e - 52)\<close> for an integer \<open>n\<close>
  of size below \<open>2 ^ 53\<close>. A float variable holds a finite number, an infinity or \<open>nan\<close>;
  the two zeros are one number here.

  \<open>binade a\<close> is the exponent \<open>e\<close> with \<open>2 ^ e \<le> a < 2 ^ (e + 1)\<close>, found by halving or
  doubling \<open>a\<close>; beyond 1100 steps it is 1100 or \<open>-1100\<close>, outside the exponents of a
  float in either direction.
\<close>

datatype pyfloat = Finite real | PosInf | NegInf | NaN

fun halvings :: "nat \<Rightarrow> real \<Rightarrow> int" where
  "halvings 0 a = 0"
| "halvings (Suc k) a = (if a < 2 then 0 else 1 + halvings k (a / 2))"

fun doublings :: "nat \<Rightarrow> real \<Rightarrow> int" where
  "doublings 0 a = 0"
| "doublings (Suc k) a = (if 1 \<le> a then 0 else 1 + doublings k (a * 2))"

definition binade :: "real \<Rightarrow> int" where
  "binade a = (if 1 \<le> a then halvings 1100 a else - doublings 1100 a)"

definition pow2 :: "int \<Rightarrow> real" where
  "pow2 z = (if 0 \<le> z then 2 ^ nat z else 1 / 2 ^ nat (- z))"

definition round_to_even :: "real \<Rightarrow> int" where
  "round_to_even y =
     (let f = \<lfloor>y\<rfloor>; d = y - of_int f in
      if d < 1 / 2 then f
      else if 1 / 2 < d then f + 1
      else if even f then f else f + 1)"

definition round_binary64 :: "real \<Rightarrow> pyfloat" where
  "round_binary64 x =
     (if x = 0 then Finite 0
      else
        let e = max (binade \<bar>x\<bar>) (- 1022);
            n = round_to_even (x / pow2 (e - 52))
        in if 1024 \<le> e \<or> (e = 1023 \<and> 2 ^ 53 \<le> \<bar>n\<bar>) then (if 0 < x then PosInf else NegInf)
           else Finite (of_int n * pow2 (e - 52)))"

text \<open>
  Addition and division compute the exact result and round it. A magnitude enters the
  sum as a float: a number that is no float is replaced by the float nearest to it, as
  \<open>json.loads\<close> does when it reads a literal. Infinities of opposite sign add up to
  \<open>nan\<close>, and \<open>nan\<close> stays. The initial \<open>0\<close> is an \<open>int\<close>, which Python turns into the
  float 0 for the first addition, and a length is an \<open>int\<close> below \<open>2 ^ 53\<close>, which
  becomes a float of the same value.
\<close>

fun float_plus :: "pyfloat \<Rightarrow> pyfloat \<Rightarrow> pyfloat" where
  "float_plus (Finite x) (Finite y) = round_binary64 (x + y)"
| "float_plus NaN w = NaN"
| "float_plus v NaN = NaN"
| "float_plus PosInf NegInf = NaN"
| "float_plus NegInf PosInf = NaN"
| "float_plus PosInf w = PosInf"
| "float_plus NegInf w = NegInf"
| "float_plus (Finite x) w = w"

definition binary64_add :: "pyfloat \<Rightarrow> real \<Rightarrow> pyfloat" where
  "binary64_add v m = float_plus v (round_binary64 m)"

definition binary64_div :: "pyfloat \<Rightarrow> nat \<Rightarrow> pyfloat" where
  "binary64_div v n = (case v of Finite x \<Rightarrow> round_binary64 (x / real n) | w \<Rightarrow> w)"

definition binary64 :: "pyfloat float_ops" where
  "binary64 = \<lparr>fzero = Finite 0, fadd = binary64_add, fdiv = binary64_div\<rparr>"

text \<open>
  A document of three earthquakes: magnitudes 2.5, 4.1 and 4.1, the first two in 2001
  (20 January and 16 May), the third in 2002 (28 April).
\<close>

definition quake_a :: earthquake where
  "quake_a = \<lparr>properties = \<lparr>mag = 2.5, time = 980000000000\<rparr>,
              geometry = \<lparr>coordinates = [-3.5, 55.1, 10]\<rparr>\<rparr>"

definition quake_b :: earthquake where
  "quake_b = \<lparr>properties = \<lparr>mag = 4.1, time = 990000000000\<rparr>,
              geometry = \<lparr>coordinates = [-2, 52.5, 7]\<rparr>\<rparr>"

definition quake_c :: earthquake where
  "quake_c = \<lparr>properties = \<lparr>mag = 4.1, time = 1020000000000\<rparr>,
              geometry = \<lparr>coordinates = [0.5, 51, 5]\<rparr>\<rparr>"

definition three_quakes :: data where
  "three_quakes = \<lparr>metadata = \<lparr>count_md = 3\<rparr>, features = [quake_a, quake_b, quake_c]\<rparr>"

text \<open>
  The same three earthquakes in a document whose metadata announce five, and an
  earthquake one millisecond before the year 2001 begins in UTC.
\<close>

definition miscounted :: data where
  "miscounted = \<lparr>metadata = \<lparr>count_md = 5\<rparr>, features = [quake_a, quake_b, quake_c]\<rparr>"

definition quake_eve :: earthquake where
  "quake_eve = \<lparr>properties = \<lparr>mag = 1.2, time = 978307199999\<rparr>,
                geometry = \<lparr>coordinates = [-4, 56, 3]\<rparr>\<rparr>"

text \<open>
  Three earthquakes of 1 March 2005 with the magnitudes that Python reads from the
  literals \<open>1.3\<close>, \<open>2.1\<close> and \<open>3.4\<close>: the floats nearest to them.
\<close>

definition tremor_a :: earthquake where
  "tremor_a = \<lparr>properties = \<lparr>mag = 5854679515581645 / 4503599627370496, time = 1109635200000\<rparr>,
               geometry = \<lparr>coordinates = [-3, 54, 8]\<rparr>\<rparr>"

definition tremor_b :: earthquake where
  "tremor_b = \<lparr>properties = \<lparr>mag = 4728779608739021 / 2251799813685248, time = 1109635200001\<rparr>,
               geometry = \<lparr>coordinates = [-3, 54, 8]\<rparr>\<rparr>"

definition tremor_c :: earthquake where
  "tremor_c = \<lparr>properties = \<lparr>mag = 7656119366529843 / 2251799813685248, time = 1109635200002\<rparr>,
               geometry = \<lparr>coordinates = [-3, 54, 8]\<rparr>\<rparr>"

section \<open>What the theorems speak about\<close>

text \<open>
  The magnitudes of the earthquakes of year \<open>y\<close>, in the order of the input. An
  earthquake whose time stamp cannot be converted belongs to no year.
\<close>

abbreviation magnitudes_in_year :: "fromtimestamp \<Rightarrow> int \<Rightarrow> earthquake list \<Rightarrow> real list" where
  "magnitudes_in_year fromtimestamp y quakes \<equiv>
     map get_magnitude (filter (\<lambda>q. get_year fromtimestamp q = Inr y) quakes)"

section \<open>Properties of the strongest earthquake\<close>

lemma get_maximum_loop_result:
  "get_maximum_loop (cm, cl) items = Inr (m, l) \<Longrightarrow>
     m = Max (insert cm (get_magnitude ` set items)) \<and>
     (if \<forall>q\<in>set items. get_magnitude q \<le> cm then l = cl
      else \<exists>q. find (\<lambda>q. get_magnitude q = m) items = Some q \<and> get_location q = Inr l)"
proof (induction items arbitrary: cm cl)
  case Nil
  then show ?case by simp
next
  case (Cons item items)
  show ?case
  proof (cases "get_magnitude item > cm")
    case True
    from Cons.prems True obtain loc where loc: "get_location item = Inr loc"
      and run: "get_maximum_loop (get_magnitude item, loc) items = Inr (m, l)"
      by (auto split: sum.splits)
    note ih = Cons.IH [OF run]
    define M where "M = Max (insert (get_magnitude item) (get_magnitude ` set items))"
    have "get_magnitude item \<le> M"
      unfolding M_def by simp
    with True have "max cm M = M" by simp
    moreover have "Max (insert cm (get_magnitude ` set (item # items))) = max cm M"
      unfolding M_def by simp
    ultimately have m: "m = Max (insert cm (get_magnitude ` set (item # items)))"
      using ih unfolding M_def by simp
    show ?thesis
    proof (cases "\<forall>q\<in>set items. get_magnitude q \<le> get_magnitude item")
      case all: True
      then have "Max (insert (get_magnitude item) (get_magnitude ` set items)) = get_magnitude item"
        by (intro Max_eqI) auto
      with ih all have "l = loc" and "m = get_magnitude item"
        by simp_all
      with True loc m show ?thesis by auto
    next
      case False
      with ih obtain q where q: "find (\<lambda>q. get_magnitude q = m) items = Some q"
        "get_location q = Inr l" by auto
      from False obtain r where "r \<in> set items" "get_magnitude item < get_magnitude r" by auto
      with ih have "get_magnitude item < m"
        by (metis List.finite_set Max_ge finite_imageI finite_insert image_eqI insertCI less_le_trans)
      with q True m show ?thesis by auto
    qed
  next
    case False
    with Cons.prems have run: "get_maximum_loop (cm, cl) items = Inr (m, l)" by simp
    note ih = Cons.IH [OF run]
    define M where "M = Max (insert cm (get_magnitude ` set items))"
    have "cm \<le> M"
      unfolding M_def by simp
    with False have "max (get_magnitude item) M = M" by simp
    moreover have "Max (insert cm (get_magnitude ` set (item # items))) = max (get_magnitude item) M"
      unfolding M_def by (simp add: insert_commute [of cm])
    ultimately have m: "m = Max (insert cm (get_magnitude ` set (item # items)))"
      using ih unfolding M_def by simp
    show ?thesis
    proof (cases "\<forall>q\<in>set items. get_magnitude q \<le> cm")
      case True
      with ih False m show ?thesis by auto
    next
      case nall: False
      with ih obtain q where q: "find (\<lambda>q. get_magnitude q = m) items = Some q"
        "get_location q = Inr l" by auto
      from nall obtain r where "r \<in> set items" "cm < get_magnitude r" by auto
      with ih have "cm < m"
        by (metis List.finite_set Max_ge finite_imageI finite_insert image_eqI insertCI less_le_trans)
      with False have "get_magnitude item \<noteq> m" by auto
      with q nall m show ?thesis by auto
    qed
  qed
qed


lemma get_location_raises:
  "get_location q = Inl e \<Longrightarrow> e = IndexError \<and> length (coordinates (geometry q)) < 2"
  by (auto simp: get_location_def subscript_def Let_def split: if_splits)

lemma get_maximum_loop_raises:
  "get_maximum_loop (cm, cl) items = Inl e \<Longrightarrow>
     e = IndexError \<and> (\<exists>q\<in>set items. length (coordinates (geometry q)) < 2)"
proof (induction items arbitrary: cm cl)
  case Nil
  then show ?case by simp
next
  case (Cons item items)
  then show ?case
    by (auto simp: Let_def split: if_splits sum.splits dest: get_location_raises)
qed

lemma get_maximum_result:
  assumes "get_maximum d = Inr (m, l)"
  shows "features d \<noteq> [] \<and> m = Max (get_magnitude ` set (features d)) \<and>
         (\<exists>q. find (\<lambda>q. get_magnitude q = m) (features d) = Some q \<and> get_location q = Inr l)"
proof (cases "features d")
  case Nil
  with assms show ?thesis by (simp add: get_maximum_def subscript_def)
next
  case (Cons first rest)
  with assms obtain loc where loc: "get_location first = Inr loc"
    and run: "get_maximum_loop (get_magnitude first, loc) (first # rest) = Inr (m, l)"
    by (auto simp: get_maximum_def subscript_def split: sum.splits)
  note res = get_maximum_loop_result [OF run]
  have "insert (get_magnitude first) (get_magnitude ` set (first # rest))
          = get_magnitude ` set (first # rest)" by auto
  with res have m: "m = Max (get_magnitude ` set (first # rest))" by simp
  show ?thesis
  proof (cases "\<forall>q\<in>set (first # rest). get_magnitude q \<le> get_magnitude first")
    case True
    then have "Max (get_magnitude ` set (first # rest)) = get_magnitude first"
      by (intro Max_eqI) auto
    with m have "m = get_magnitude first" by simp
    moreover from res True have "l = loc" by (simp only: if_True)
    ultimately have "find (\<lambda>q. get_magnitude q = m) (first # rest) = Some first \<and> get_location first = Inr l"
      using loc by simp
    with m show ?thesis unfolding Cons by blast
  next
    case False
    from res have "if \<forall>q\<in>set (first # rest). get_magnitude q \<le> get_magnitude first then l = loc
      else \<exists>q. find (\<lambda>q. get_magnitude q = m) (first # rest) = Some q \<and> get_location q = Inr l"
      by (rule conjunct2)
    with False have "\<exists>q. find (\<lambda>q. get_magnitude q = m) (first # rest) = Some q \<and> get_location q = Inr l"
      by (simp only: if_False)
    with m show ?thesis unfolding Cons by blast
  qed
qed

text \<open>
  Claim C1. On a document with at least one record, \<open>get_maximum\<close> either returns a
  pair whose magnitude is the greatest magnitude of all records and whose location is
  the location of a record of that magnitude, or it raises \<open>IndexError\<close> because a record
  it had to read the location of carries fewer than two coordinates. So on records that
  all carry a longitude and a latitude it returns, and what it returns is the maximum.
\<close>

theorem get_maximum_is_max:
  assumes "features d \<noteq> []"
  shows "case get_maximum d of
           Inr (m, l) \<Rightarrow>
             m = Max (get_magnitude ` set (features d)) \<and>
             (\<exists>q\<in>set (features d). get_magnitude q = m \<and> get_location q = Inr l)
         | Inl e \<Rightarrow>
             e = IndexError \<and> (\<exists>q\<in>set (features d). length (coordinates (geometry q)) < 2)"
proof (cases "get_maximum d")
  case (Inr r)
  obtain m l where r: "r = (m, l)" by (cases r)
  from get_maximum_result [of d m l] Inr r
  obtain q where "m = Max (get_magnitude ` set (features d))"
    "find (\<lambda>q. get_magnitude q = m) (features d) = Some q" "get_location q = Inr l"
    by auto
  moreover from this have "q \<in> set (features d) \<and> get_magnitude q = m"
    by (auto simp: find_Some_iff)
  ultimately show ?thesis using Inr r by auto
next
  case (Inl e)
  from assms obtain first rest where fs: "features d = first # rest"
    by (cases "features d") auto
  show ?thesis
  proof (cases "get_location first")
    case bad: (Inl e')
    with Inl fs have "e = e'" by (simp add: get_maximum_def subscript_def)
    with get_location_raises [OF bad] Inl fs show ?thesis by auto
  next
    case (Inr loc)
    with Inl fs have "get_maximum_loop (get_magnitude first, loc) (features d) = Inl e"
      by (simp add: get_maximum_def subscript_def)
    from get_maximum_loop_raises [OF this] Inl show ?thesis by simp
  qed
qed

text \<open>The example document, unfolded.\<close>

lemmas example_defs = three_quakes_def quake_a_def quake_b_def quake_c_def

theorem get_maximum_is_max_witness:
  "features three_quakes \<noteq> [] \<and>
   get_maximum three_quakes = Inr (4.1, (-2, 52.5)) \<and>
   Max (get_magnitude ` set (features three_quakes)) = 4.1 \<and>
   get_magnitude quake_b = 4.1 \<and> get_location quake_b = Inr (-2, 52.5)"
proof -
  have ne: "features three_quakes \<noteq> []"
    by (simp add: three_quakes_def)
  have run: "get_maximum three_quakes = Inr (4.1, (-2, 52.5))"
    by (simp add: get_maximum_def example_defs subscript_def get_location_def get_magnitude_def)
  from get_maximum_is_max [OF ne] run
  have "(4.1::real) = Max (get_magnitude ` set (features three_quakes))" by simp
  with ne run show ?thesis
    by (simp add: quake_b_def get_magnitude_def get_location_def subscript_def)
qed

text \<open>
  Claim C2. When \<open>get_maximum\<close> returns, the location is that of the first record, in the
  order of the input, whose magnitude is the maximum: every record before it is strictly
  weaker. Records of the same magnitude further on (a tie) do not replace it, since the
  loop compares with a strict \<open>>\<close>.
\<close>

theorem get_maximum_first_seen:
  assumes "get_maximum d = Inr (m, l)"
  shows "\<exists>i<length (features d).
           get_magnitude (features d ! i) = Max (get_magnitude ` set (features d)) \<and>
           (\<forall>j<i. get_magnitude (features d ! j) < Max (get_magnitude ` set (features d))) \<and>
           get_location (features d ! i) = Inr l \<and>
           m = Max (get_magnitude ` set (features d))"
proof -
  let ?M = "Max (get_magnitude ` set (features d))"
  from get_maximum_result [OF assms] obtain q where m: "m = ?M"
    and q: "find (\<lambda>q. get_magnitude q = m) (features d) = Some q" "get_location q = Inr l"
    by auto
  from q(1) obtain i where i: "i < length (features d)" "get_magnitude (features d ! i) = m"
    "q = features d ! i" "\<forall>j<i. get_magnitude (features d ! j) \<noteq> m"
    by (auto simp: find_Some_iff)
  have "get_magnitude (features d ! j) < ?M" if "j < i" for j
  proof -
    from that i(1) have "features d ! j \<in> set (features d)" by simp
    then have "get_magnitude (features d ! j) \<le> ?M" by simp
    with i(4) that m show ?thesis by auto
  qed
  with i q(2) m show ?thesis by auto
qed

theorem get_maximum_first_seen_witness:
  "get_maximum three_quakes = Inr (4.1, (-2, 52.5)) \<and>
   features three_quakes ! 1 = quake_b \<and> features three_quakes ! 2 = quake_c \<and>
   get_magnitude quake_b = get_magnitude quake_c \<and>
   get_location quake_b = Inr (-2, 52.5) \<and> get_location quake_c = Inr (0.5, 51) \<and>
   (\<exists>i<length (features three_quakes).
      get_magnitude (features three_quakes ! i) = Max (get_magnitude ` set (features three_quakes)) \<and>
      get_location (features three_quakes ! i) = Inr (-2, 52.5))"
proof -
  have run: "get_maximum three_quakes = Inr (4.1, (-2, 52.5))"
    by (simp add: get_maximum_def example_defs subscript_def get_location_def get_magnitude_def)
  from get_maximum_first_seen [OF run]
  have "\<exists>i<length (features three_quakes).
      get_magnitude (features three_quakes ! i) = Max (get_magnitude ` set (features three_quakes)) \<and>
      get_location (features three_quakes ! i) = Inr (-2, 52.5)" by blast
  with run show ?thesis
    by (simp add: example_defs get_magnitude_def get_location_def subscript_def)
qed

text \<open>
  Claim C3. On a document with zero records \<open>get_maximum\<close> returns no value: reading
  \<open>data["features"][0]\<close> raises \<open>IndexError\<close>, the program's form of the empty-collection
  failure.
\<close>

theorem get_maximum_empty:
  "get_maximum (d\<lparr>features := []\<rparr>) = Inl IndexError"
  by (simp add: get_maximum_def subscript_def)

section \<open>The loop that groups by year\<close>

lemma get_year_raises:
  "get_year fts q = Inl e \<Longrightarrow> e = FromtimestampError"
  by (auto simp: get_year_def Let_def split: option.splits)

lemma add_quake_returns:
  "add_quake fts yd q = Inr yd' \<longleftrightarrow>
     (\<exists>y. get_year fts q = Inr y \<and>
          yd' = AList.update y ((case map_of yd y of None \<Rightarrow> [] | Some ms \<Rightarrow> ms) @ [get_magnitude q]) yd)"
  by (auto simp: add_quake_def dict_contains_def dict_get_def split: sum.splits option.splits)

lemma add_quake_raises:
  "add_quake fts yd q = Inl e \<Longrightarrow> e = FromtimestampError \<and> get_year fts q = Inl FromtimestampError"
  by (auto simp: add_quake_def dict_contains_def dict_get_def
      split: sum.splits option.splits if_splits dest: get_year_raises)

lemma loop_map_of:
  "get_magnitudes_per_year_loop fts yd qs = Inr yd' \<Longrightarrow>
     map_of yd' y =
       (case map_of yd y of
          None \<Rightarrow> (if magnitudes_in_year fts y qs = [] then None
                   else Some (magnitudes_in_year fts y qs))
        | Some ms \<Rightarrow> Some (ms @ magnitudes_in_year fts y qs))"
proof (induction qs arbitrary: yd)
  case Nil
  then show ?case by (simp split: option.splits)
next
  case (Cons q qs)
  from Cons.prems obtain yd1 where step: "add_quake fts yd q = Inr yd1"
    and run: "get_magnitudes_per_year_loop fts yd1 qs = Inr yd'"
    by (auto split: sum.splits)
  from step obtain yq where yq: "get_year fts q = Inr yq"
    and yd1: "yd1 = AList.update yq ((case map_of yd yq of None \<Rightarrow> [] | Some ms \<Rightarrow> ms) @ [get_magnitude q]) yd"
    by (auto simp: add_quake_returns)
  show ?case
    using Cons.IH [OF run] yq
    by (auto simp: yd1 update_conv' split: option.splits)
qed

lemma loop_distinct:
  "get_magnitudes_per_year_loop fts yd qs = Inr yd' \<Longrightarrow> distinct (map fst yd) \<Longrightarrow>
     distinct (map fst yd')"
proof (induction qs arbitrary: yd)
  case Nil
  then show ?case by simp
next
  case (Cons q qs)
  then show ?case
    by (auto simp: add_quake_returns distinct_update split: sum.splits)
qed

lemma loop_all_years:
  "get_magnitudes_per_year_loop fts yd qs = Inr yd' \<Longrightarrow> q \<in> set qs \<Longrightarrow>
     \<exists>y. get_year fts q = Inr y"
proof (induction qs arbitrary: yd)
  case Nil
  then show ?case by simp
next
  case (Cons a qs)
  then show ?case
    by (auto simp: add_quake_returns split: sum.splits)
qed

lemma loop_returns:
  "(\<And>q. q \<in> set qs \<Longrightarrow> \<exists>y. get_year fts q = Inr y) \<Longrightarrow>
     \<exists>yd'. get_magnitudes_per_year_loop fts yd qs = Inr yd'"
proof (induction qs arbitrary: yd)
  case Nil
  then show ?case by simp
next
  case (Cons a qs)
  from Cons.prems [of a] obtain y where y: "get_year fts a = Inr y" by auto
  then obtain yd1 where "add_quake fts yd a = Inr yd1"
    by (auto simp: add_quake_returns)
  moreover have "\<exists>yd'. get_magnitudes_per_year_loop fts yd1 qs = Inr yd'"
    by (rule Cons.IH) (simp add: Cons.prems)
  ultimately show ?case by simp
qed

lemma loop_raises:
  "get_magnitudes_per_year_loop fts yd qs = Inl e \<Longrightarrow>
     e = FromtimestampError \<and> (\<exists>q\<in>set qs. get_year fts q = Inl FromtimestampError)"
proof (induction qs arbitrary: yd)
  case Nil
  then show ?case by simp
next
  case (Cons a qs)
  then show ?case
    by (auto split: sum.splits dest: add_quake_raises)
qed

lemma concat_update_new:
  "map_of al k = None \<Longrightarrow>
     mset (concat (map snd (AList.update k v al))) = mset (concat (map snd al)) + mset v"
  by (induction al) (auto split: if_splits)

lemma concat_update_old:
  "map_of al k = Some ms \<Longrightarrow>
     mset (concat (map snd (AList.update k (ms @ w) al))) = mset (concat (map snd al)) + mset w"
  by (induction al) (auto split: if_splits)

lemma loop_concat:
  "get_magnitudes_per_year_loop fts yd qs = Inr yd' \<Longrightarrow>
     mset (concat (map snd yd')) = mset (concat (map snd yd)) + mset (map get_magnitude qs)"
proof (induction qs arbitrary: yd)
  case Nil
  then show ?case by simp
next
  case (Cons q qs)
  from Cons.prems obtain yd1 where step: "add_quake fts yd q = Inr yd1"
    and run: "get_magnitudes_per_year_loop fts yd1 qs = Inr yd'"
    by (auto split: sum.splits)
  from step obtain yq where
    yd1: "yd1 = AList.update yq ((case map_of yd yq of None \<Rightarrow> [] | Some ms \<Rightarrow> ms) @ [get_magnitude q]) yd"
    by (auto simp: add_quake_returns)
  have "mset (concat (map snd yd1)) = mset (concat (map snd yd)) + {#get_magnitude q#}"
  proof (cases "map_of yd yq")
    case None
    with yd1 show ?thesis by (simp add: concat_update_new)
  next
    case (Some ms)
    with yd1 show ?thesis by (simp add: concat_update_old)
  qed
  with Cons.IH [OF run] show ?case by simp
qed

lemma update_nonempty_lists:
  "\<forall>ms\<in>snd ` set al. ms \<noteq> [] \<Longrightarrow> v \<noteq> [] \<Longrightarrow> \<forall>ms\<in>snd ` set (AList.update k v al). ms \<noteq> []"
  by (induction al) (auto split: if_splits)

lemma loop_nonempty_lists:
  "get_magnitudes_per_year_loop fts yd qs = Inr yd' \<Longrightarrow> \<forall>ms\<in>snd ` set yd. ms \<noteq> [] \<Longrightarrow>
     \<forall>ms\<in>snd ` set yd'. ms \<noteq> []"
proof (induction qs arbitrary: yd)
  case Nil
  then show ?case by simp
next
  case (Cons q qs)
  from Cons.prems(1) obtain yd1 where step: "add_quake fts yd q = Inr yd1"
    and run: "get_magnitudes_per_year_loop fts yd1 qs = Inr yd'"
    by (auto split: sum.splits)
  from step obtain yq where
    yd1: "yd1 = AList.update yq ((case map_of yd yq of None \<Rightarrow> [] | Some ms \<Rightarrow> ms) @ [get_magnitude q]) yd"
    by (auto simp: add_quake_returns)
  have "\<forall>ms\<in>snd ` set yd1. ms \<noteq> []"
    unfolding yd1 by (rule update_nonempty_lists [OF Cons.prems(2)]) simp
  with Cons.IH [OF run] show ?case by simp
qed


lemma grouping_map_of:
  "get_magnitudes_per_year fts qs = Inr g \<Longrightarrow>
     map_of g y = (if magnitudes_in_year fts y qs = [] then None
                   else Some (magnitudes_in_year fts y qs))"
  by (simp add: get_magnitudes_per_year_def loop_map_of)

lemma grouping_distinct:
  "get_magnitudes_per_year fts qs = Inr g \<Longrightarrow> distinct (dict_keys g)"
  unfolding get_magnitudes_per_year_def dict_keys_def
  by (drule loop_distinct) simp_all

lemma grouping_entries:
  assumes "get_magnitudes_per_year fts qs = Inr g" and "(y, ms) \<in> set g"
  shows "ms = magnitudes_in_year fts y qs \<and> ms \<noteq> []"
proof -
  from grouping_distinct [OF assms(1)] assms(2) have "map_of g y = Some ms"
    by (simp add: dict_keys_def)
  with grouping_map_of [OF assms(1), of y] show ?thesis
    by (auto split: if_splits)
qed

lemma grouping_keys:
  assumes "get_magnitudes_per_year fts qs = Inr g"
  shows "Inr ` set (dict_keys g) = get_year fts ` set qs"
proof -
  have all: "\<exists>y. get_year fts q = Inr y" if "q \<in> set qs" for q
    using assms that unfolding get_magnitudes_per_year_def by (rule loop_all_years)
  have keys: "y \<in> set (dict_keys g) \<longleftrightarrow> (\<exists>q\<in>set qs. get_year fts q = Inr y)" for y
  proof -
    have "y \<in> set (dict_keys g) \<longleftrightarrow> map_of g y \<noteq> None"
      by (simp add: dict_keys_def map_of_eq_None_iff)
    also have "\<dots> \<longleftrightarrow> magnitudes_in_year fts y qs \<noteq> []"
      by (simp add: grouping_map_of [OF assms])
    also have "\<dots> \<longleftrightarrow> (\<exists>q\<in>set qs. get_year fts q = Inr y)"
      by (auto simp: filter_empty_conv)
    finally show ?thesis .
  qed
  show ?thesis
  proof (intro set_eqI iffI)
    fix r :: "py_error + int"
    assume "r \<in> Inr ` set (dict_keys g)"
    with keys show "r \<in> get_year fts ` set qs" by force
  next
    fix r :: "py_error + int"
    assume "r \<in> get_year fts ` set qs"
    then obtain q where q: "q \<in> set qs" "r = get_year fts q" by auto
    with all obtain y where "get_year fts q = Inr y" by blast
    with q keys show "r \<in> Inr ` set (dict_keys g)" by auto
  qed
qed

lemma grouping_raises:
  "get_magnitudes_per_year fts qs = Inl e \<Longrightarrow>
     e = FromtimestampError \<and> (\<exists>q\<in>set qs. get_year fts q = Inl FromtimestampError)"
  unfolding get_magnitudes_per_year_def by (rule loop_raises)

lemma average_loop_returns:
  "(\<And>y. y \<in> set ys \<Longrightarrow> \<exists>ms. map_of dict y = Some ms \<and> ms \<noteq> []) \<Longrightarrow>
     average_loop ar dict ys acc =
       Inr (acc @ map (\<lambda>y. fdiv ar (foldl (fadd ar) (fzero ar) (the (map_of dict y)))
                                (length (the (map_of dict y)))) ys)"
proof (induction ys arbitrary: acc)
  case Nil
  then show ?case by simp
next
  case (Cons y ys)
  from Cons.prems [of y] obtain ms where ms: "map_of dict y = Some ms" "ms \<noteq> []" by auto
  have "average_loop ar dict ys (acc @ [fdiv ar (foldl (fadd ar) (fzero ar) ms) (length ms)]) =
      Inr ((acc @ [fdiv ar (foldl (fadd ar) (fzero ar) ms) (length ms)]) @
        map (\<lambda>y. fdiv ar (foldl (fadd ar) (fzero ar) (the (map_of dict y)))
                         (length (the (map_of dict y)))) ys)"
    by (rule Cons.IH) (simp add: Cons.prems)
  with ms show ?case by (simp add: dict_get_def)
qed

lemma number_loop_returns:
  "(\<And>y. y \<in> set ys \<Longrightarrow> \<exists>ms. map_of dict y = Some ms) \<Longrightarrow>
     number_loop dict ys acc = Inr (acc @ map (\<lambda>y. length (the (map_of dict y))) ys)"
proof (induction ys arbitrary: acc)
  case Nil
  then show ?case by simp
next
  case (Cons y ys)
  from Cons.prems [of y] obtain ms where ms: "map_of dict y = Some ms" by auto
  have "number_loop dict ys (acc @ [length ms]) =
      Inr ((acc @ [length ms]) @ map (\<lambda>y. length (the (map_of dict y))) ys)"
    by (rule Cons.IH) (simp add: Cons.prems)
  with ms show ?case by (simp add: dict_get_def)
qed

lemma grouping_lookup_sorted:
  assumes "get_magnitudes_per_year fts qs = Inr g" and "y \<in> set (sort (dict_keys g))"
  shows "map_of g y = Some (magnitudes_in_year fts y qs) \<and> magnitudes_in_year fts y qs \<noteq> []"
proof -
  from assms(2) have "map_of g y \<noteq> None"
    by (simp add: dict_keys_def map_of_eq_None_iff)
  with grouping_map_of [OF assms(1), of y] show ?thesis
    by (auto split: if_splits)
qed

lemma plot_average_returns:
  assumes "get_magnitudes_per_year fts qs = Inr g"
  shows "plot_average_magnitude_per_year ar fts qs =
           Inr (sort (dict_keys g),
                map (\<lambda>y. fdiv ar (foldl (fadd ar) (fzero ar) (magnitudes_in_year fts y qs))
                                 (length (magnitudes_in_year fts y qs))) (sort (dict_keys g)))"
proof -
  have "average_loop ar g (sort (dict_keys g)) [] =
      Inr ([] @ map (\<lambda>y. fdiv ar (foldl (fadd ar) (fzero ar) (the (map_of g y)))
                               (length (the (map_of g y)))) (sort (dict_keys g)))"
    by (rule average_loop_returns) (use grouping_lookup_sorted [OF assms] in blast)
  moreover have "map (\<lambda>y. fdiv ar (foldl (fadd ar) (fzero ar) (the (map_of g y)))
                               (length (the (map_of g y)))) (sort (dict_keys g))
     = map (\<lambda>y. fdiv ar (foldl (fadd ar) (fzero ar) (magnitudes_in_year fts y qs))
                      (length (magnitudes_in_year fts y qs))) (sort (dict_keys g))"
    by (rule map_cong [OF refl]) (simp add: grouping_lookup_sorted [OF assms])
  ultimately show ?thesis
    using assms by (simp add: plot_average_magnitude_per_year_def Let_def)
qed

lemma plot_number_returns:
  assumes "get_magnitudes_per_year fts qs = Inr g"
  shows "plot_number_per_year fts qs =
           Inr (sort (dict_keys g),
                map (\<lambda>y. length (magnitudes_in_year fts y qs)) (sort (dict_keys g)))"
proof -
  have "number_loop g (sort (dict_keys g)) [] =
      Inr ([] @ map (\<lambda>y. length (the (map_of g y))) (sort (dict_keys g)))"
    by (rule number_loop_returns) (use grouping_lookup_sorted [OF assms] in blast)
  moreover have "map (\<lambda>y. length (the (map_of g y))) (sort (dict_keys g))
     = map (\<lambda>y. length (magnitudes_in_year fts y qs)) (sort (dict_keys g))"
    by (rule map_cong [OF refl]) (simp add: grouping_lookup_sorted [OF assms])
  ultimately show ?thesis
    using assms by (simp add: plot_number_per_year_def Let_def)
qed

lemma plot_average_raises:
  assumes "plot_average_magnitude_per_year ar fts qs = Inl e"
  shows "e = FromtimestampError \<and> (\<exists>q\<in>set qs. get_year fts q = Inl FromtimestampError)"
proof (cases "get_magnitudes_per_year fts qs")
  case (Inl e')
  with assms have "e = e'" by (simp add: plot_average_magnitude_per_year_def)
  with grouping_raises [OF Inl] show ?thesis by simp
next
  case (Inr g)
  from plot_average_returns [OF Inr, of ar] assms show ?thesis by simp
qed

lemma plot_number_raises:
  assumes "plot_number_per_year fts qs = Inl e"
  shows "e = FromtimestampError \<and> (\<exists>q\<in>set qs. get_year fts q = Inl FromtimestampError)"
proof (cases "get_magnitudes_per_year fts qs")
  case (Inl e')
  with assms have "e = e'" by (simp add: plot_number_per_year_def)
  with grouping_raises [OF Inl] show ?thesis by simp
next
  case (Inr g)
  from plot_number_returns [OF Inr] assms show ?thesis by simp
qed

section \<open>The example document, evaluated\<close>

lemma year_a: "get_year fromtimestamp_utc quake_a = Inr 2001"
  by code_simp

lemma year_b: "get_year fromtimestamp_utc quake_b = Inr 2001"
  by code_simp

lemma year_c: "get_year fromtimestamp_utc quake_c = Inr 2002"
  by code_simp

lemma mag_abc: "get_magnitude quake_a = 2.5" "get_magnitude quake_b = 4.1" "get_magnitude quake_c = 4.1"
  by (simp_all add: get_magnitude_def quake_a_def quake_b_def quake_c_def)

lemma three_quakes_grouping:
  "get_magnitudes_per_year fromtimestamp_utc [quake_a, quake_b, quake_c] =
     Inr [(2001, [2.5, 4.1]), (2002, [4.1])]"
  by (simp add: get_magnitudes_per_year_def add_quake_def dict_contains_def dict_get_def
      year_a year_b year_c mag_abc)

lemma three_quakes_average:
  "plot_average_magnitude_per_year binary64 fromtimestamp_utc [quake_a, quake_b, quake_c] =
     Inr ([2001, 2002],
          [Finite 3.29999999999999982236431605997495353221893310546875,
           Finite 4.0999999999999996447286321199499070644378662109375])"
  by code_simp

lemma three_quakes_number:
  "plot_number_per_year fromtimestamp_utc [quake_a, quake_b, quake_c] =
     Inr ([2001, 2002], [2, 1])"
  by (simp add: plot_number_per_year_def three_quakes_grouping dict_keys_def dict_get_def)


section \<open>Properties of the grouping\<close>

text \<open>
  Claim C5. When \<open>get_magnitudes_per_year\<close> returns, its result partitions the input:
  the years are distinct keys, every record has a year whose list is exactly the
  magnitudes of the records of that year in input order, every list of the result is
  such a list, and the lists together hold the magnitudes of the input, each as often
  as it occurs there. The number of magnitudes over all years is the number of records.
  \<open>count_earthquakes\<close> reads the count from the metadata of the document instead of
  counting the records, so the total equals it when the metadata state the number of
  records.
\<close>

theorem get_magnitudes_per_year_partition:
  assumes "get_magnitudes_per_year fts (features d) = Inr g"
  shows "distinct (dict_keys g) \<and>
         (\<forall>q\<in>set (features d). \<exists>y. get_year fts q = Inr y \<and>
              dict_get g y = Inr (magnitudes_in_year fts y (features d))) \<and>
         (\<forall>(y, ms)\<in>set g. ms = magnitudes_in_year fts y (features d)) \<and>
         mset (concat (map snd g)) = mset (map get_magnitude (features d)) \<and>
         sum_list (map (\<lambda>(y, ms). length ms) g) = length (features d) \<and>
         (count_md (metadata d) = int (length (features d)) \<longrightarrow>
            int (sum_list (map (\<lambda>(y, ms). length ms) g)) = count_earthquakes d)"
proof -
  note g = assms
  have ms: "mset (concat (map snd g)) = mset (map get_magnitude (features d))"
    using loop_concat [of fts "[]" "features d" g] g
    by (simp add: get_magnitudes_per_year_def)
  then have "size (mset (concat (map snd g))) = size (mset (map get_magnitude (features d)))"
    by (rule arg_cong)
  then have len: "sum_list (map (\<lambda>(y, ms). length ms) g) = length (features d)"
    by (simp add: length_concat comp_def split_def)
  have rec: "\<exists>y. get_year fts q = Inr y \<and>
      dict_get g y = Inr (magnitudes_in_year fts y (features d))"
    if "q \<in> set (features d)" for q
  proof -
    from g that obtain y where y: "get_year fts q = Inr y"
      unfolding get_magnitudes_per_year_def by (blast dest: loop_all_years)
    with that have "magnitudes_in_year fts y (features d) \<noteq> []"
      by (auto simp: filter_empty_conv)
    with grouping_map_of [OF g, of y] y show ?thesis
      by (simp add: dict_get_def)
  qed
  have ent: "\<forall>(y, ms)\<in>set g. ms = magnitudes_in_year fts y (features d)"
    using grouping_entries [OF g] by blast
  have cnt: "count_md (metadata d) = int (length (features d)) \<longrightarrow>
            int (sum_list (map (\<lambda>(y, ms). length ms) g)) = count_earthquakes d"
    by (simp only: len count_earthquakes_def) simp
  from grouping_distinct [OF g] rec ent ms len cnt show ?thesis
    by blast
qed

theorem get_magnitudes_per_year_partition_witness:
  "get_magnitudes_per_year fromtimestamp_utc (features three_quakes) =
     Inr [(2001, [2.5, 4.1]), (2002, [4.1])] \<and>
   count_md (metadata three_quakes) = int (length (features three_quakes)) \<and>
   sum_list (map (\<lambda>(y, ms). length ms) [(2001::int, [2.5, 4.1::real]), (2002, [4.1])]) =
     length (features three_quakes) \<and>
   int (sum_list (map (\<lambda>(y, ms). length ms) [(2001::int, [2.5, 4.1::real]), (2002, [4.1])])) =
     count_earthquakes three_quakes"
proof -
  have run: "get_magnitudes_per_year fromtimestamp_utc (features three_quakes) =
     Inr [(2001, [2.5, 4.1]), (2002, [4.1])]"
    by (simp add: three_quakes_def three_quakes_grouping)
  have cnt: "count_md (metadata three_quakes) = int (length (features three_quakes))"
    by (simp add: three_quakes_def)
  from get_magnitudes_per_year_partition [OF run] cnt run show ?thesis
    by blast
qed

text \<open>
  A document whose metadata announce five earthquakes and that holds three: the lists
  hold three magnitudes, \<open>count_earthquakes\<close> answers five.
\<close>

theorem count_earthquakes_counterexample:
  "get_magnitudes_per_year fromtimestamp_utc (features miscounted) =
     Inr [(2001, [2.5, 4.1]), (2002, [4.1])] \<and>
   sum_list (map (\<lambda>(y, ms). length ms) [(2001::int, [2.5, 4.1::real]), (2002, [4.1])]) = 3 \<and>
   count_earthquakes miscounted = 5"
  by (simp add: miscounted_def three_quakes_grouping count_earthquakes_def)

text \<open>
  Claim C7. The years that \<open>plot_average_magnitude_per_year\<close> and \<open>plot_number_per_year\<close>
  hand to the plot are strictly ascending, hence without duplicates, and they are
  exactly the years of the records of the input. Either function raises only when the
  time stamp of a record cannot be converted.
\<close>

theorem years_strictly_ascending:
  "(case plot_average_magnitude_per_year ar fts qs of
      Inr (year_list, avg_list) \<Rightarrow>
        sorted_wrt (<) year_list \<and> distinct year_list \<and>
        Inr ` set year_list = get_year fts ` set qs
    | Inl e \<Rightarrow> e = FromtimestampError \<and> (\<exists>q\<in>set qs. get_year fts q = Inl FromtimestampError)) \<and>
   (case plot_number_per_year fts qs of
      Inr (year_list, num_list) \<Rightarrow>
        sorted_wrt (<) year_list \<and> distinct year_list \<and>
        Inr ` set year_list = get_year fts ` set qs
    | Inl e \<Rightarrow> e = FromtimestampError \<and> (\<exists>q\<in>set qs. get_year fts q = Inl FromtimestampError))"
proof (cases "get_magnitudes_per_year fts qs")
  case (Inl e)
  then have "plot_average_magnitude_per_year ar fts qs = Inl e" "plot_number_per_year fts qs = Inl e"
    by (simp_all add: plot_average_magnitude_per_year_def plot_number_per_year_def)
  with grouping_raises [OF Inl] show ?thesis by simp
next
  case (Inr g)
  have "distinct (sort (dict_keys g))"
    using grouping_distinct [OF Inr] by simp
  then have "sorted_wrt (<) (sort (dict_keys g))"
    by (simp add: strict_sorted_iff)
  moreover have "Inr ` set (sort (dict_keys g)) = get_year fts ` set qs"
    using grouping_keys [OF Inr] by simp
  ultimately show ?thesis
    using \<open>distinct (sort (dict_keys g))\<close>
    by (simp add: plot_average_returns [OF Inr] plot_number_returns [OF Inr])
qed

theorem years_strictly_ascending_witness:
  "plot_average_magnitude_per_year binary64 fromtimestamp_utc [quake_a, quake_b, quake_c] =
     Inr ([2001, 2002],
          [Finite 3.29999999999999982236431605997495353221893310546875,
           Finite 4.0999999999999996447286321199499070644378662109375]) \<and>
   plot_number_per_year fromtimestamp_utc [quake_a, quake_b, quake_c] = Inr ([2001, 2002], [2, 1]) \<and>
   sorted_wrt (<) [2001, 2002 :: int] \<and>
   Inr ` set [2001, 2002] = get_year fromtimestamp_utc ` set [quake_a, quake_b, quake_c]"
  using years_strictly_ascending
    [where ar = binary64 and fts = fromtimestamp_utc and qs = "[quake_a, quake_b, quake_c]"]
  by (simp add: three_quakes_average three_quakes_number)

section \<open>Properties of the yearly averages\<close>

text \<open>The three tremors of 2005, in the order of the input and backwards.\<close>

lemma tremors_grouping:
  "get_magnitudes_per_year fromtimestamp_utc [tremor_a, tremor_b, tremor_c] =
     Inr [(2005, [5854679515581645 / 4503599627370496,
                  4728779608739021 / 2251799813685248,
                  7656119366529843 / 2251799813685248])]"
  by code_simp

lemma tremors_average:
  "plot_average_magnitude_per_year binary64 fromtimestamp_utc [tremor_a, tremor_b, tremor_c] =
     Inr ([2005], [Finite (5104079577686563 / 2251799813685248)])"
  by code_simp

lemma tremors_average_backwards:
  "plot_average_magnitude_per_year binary64 fromtimestamp_utc [tremor_c, tremor_b, tremor_a] =
     Inr ([2005], [Finite (2552039788843281 / 1125899906842624)])"
  by code_simp

text \<open>
  Claim C8. When \<open>plot_average_magnitude_per_year\<close> returns, the value at each position
  belongs to the year at the same position, and it is the mean of the list the grouping
  holds for that year, computed the way the program computes it: the list is the
  magnitudes of that year in the order of the input; they are added to the initial 0 one
  after the other, from left to right, each addition being the addition of the machine;
  the sum is divided by the length of the list with the division of the machine. The
  statement holds for every machine arithmetic, with or without rounding, so it
  promises this order of the additions and no other.
\<close>

theorem average_is_mean:
  assumes "plot_average_magnitude_per_year ar fts qs = Inr (year_list, avg_list)"
  shows "\<exists>g. get_magnitudes_per_year fts qs = Inr g \<and> year_list = sort (dict_keys g) \<and>
           length avg_list = length year_list \<and>
           (\<forall>i<length year_list. \<exists>mag_list.
              dict_get g (year_list ! i) = Inr mag_list \<and>
              mag_list = magnitudes_in_year fts (year_list ! i) qs \<and>
              mag_list \<noteq> [] \<and>
              avg_list ! i =
                fdiv ar (foldl (\<lambda>val mag. fadd ar val mag) (fzero ar) mag_list) (length mag_list))"
proof (cases "get_magnitudes_per_year fts qs")
  case (Inl e)
  with assms show ?thesis by (simp add: plot_average_magnitude_per_year_def)
next
  case (Inr g)
  from plot_average_returns [OF Inr, of ar] assms
  have ys: "year_list = sort (dict_keys g)"
    and vs: "avg_list = map (\<lambda>y. fdiv ar (foldl (fadd ar) (fzero ar) (magnitudes_in_year fts y qs))
                                      (length (magnitudes_in_year fts y qs))) year_list"
    by simp_all
  have "\<exists>mag_list. dict_get g (year_list ! i) = Inr mag_list \<and>
              mag_list = magnitudes_in_year fts (year_list ! i) qs \<and>
              mag_list \<noteq> [] \<and>
              avg_list ! i =
                fdiv ar (foldl (\<lambda>val mag. fadd ar val mag) (fzero ar) mag_list) (length mag_list)"
    if i: "i < length year_list" for i
  proof -
    from i have "year_list ! i \<in> set (sort (dict_keys g))"
      unfolding ys [symmetric] by simp
    from grouping_lookup_sorted [OF Inr this]
    have "dict_get g (year_list ! i) = Inr (magnitudes_in_year fts (year_list ! i) qs)"
      and "magnitudes_in_year fts (year_list ! i) qs \<noteq> []"
      by (simp_all add: dict_get_def)
    moreover from vs i
    have "avg_list ! i =
        fdiv ar (foldl (fadd ar) (fzero ar) (magnitudes_in_year fts (year_list ! i) qs))
                (length (magnitudes_in_year fts (year_list ! i) qs))"
      by simp
    ultimately show ?thesis by simp
  qed
  moreover from vs have "length avg_list = length year_list" by simp
  ultimately show ?thesis using Inr ys by blast
qed

text \<open>
  On IEEE doubles the order shows: Python prints the average of the three tremors as
  \<open>2.266666666666667\<close>, and as \<open>2.2666666666666666\<close> when they come in the opposite order.
\<close>

theorem average_is_mean_witness:
  "plot_average_magnitude_per_year binary64 fromtimestamp_utc [tremor_a, tremor_b, tremor_c] =
     Inr ([2005], [Finite (5104079577686563 / 2251799813685248)]) \<and>
   plot_average_magnitude_per_year binary64 fromtimestamp_utc [tremor_c, tremor_b, tremor_a] =
     Inr ([2005], [Finite (2552039788843281 / 1125899906842624)]) \<and>
   Finite (5104079577686563 / 2251799813685248) \<noteq> Finite (2552039788843281 / 1125899906842624) \<and>
   (\<exists>mag_list.
      dict_get [(2005::int, [5854679515581645 / 4503599627370496,
                             4728779608739021 / 2251799813685248,
                             7656119366529843 / 2251799813685248 :: real])] 2005 = Inr mag_list \<and>
      Finite (5104079577686563 / 2251799813685248) =
        fdiv binary64 (foldl (\<lambda>val mag. fadd binary64 val mag) (fzero binary64) mag_list)
          (length mag_list))"
proof -
  from average_is_mean [OF tremors_average] obtain g where
    g: "get_magnitudes_per_year fromtimestamp_utc [tremor_a, tremor_b, tremor_c] = Inr g" and
    each: "\<And>i. i < length [2005::int] \<Longrightarrow>
      \<exists>mag_list. dict_get g ([2005] ! i) = Inr mag_list \<and>
        [Finite (5104079577686563 / 2251799813685248)] ! i =
          fdiv binary64 (foldl (\<lambda>val mag. fadd binary64 val mag) (fzero binary64) mag_list)
            (length mag_list)"
    by blast
  from g have "g = [(2005, [5854679515581645 / 4503599627370496,
                            4728779608739021 / 2251799813685248,
                            7656119366529843 / 2251799813685248])]"
    by (simp only: tremors_grouping sum.inject)
  with each [of 0]
  have "\<exists>mag_list.
      dict_get [(2005::int, [5854679515581645 / 4503599627370496,
                             4728779608739021 / 2251799813685248,
                             7656119366529843 / 2251799813685248 :: real])] 2005 = Inr mag_list \<and>
      Finite (5104079577686563 / 2251799813685248) =
        fdiv binary64 (foldl (\<lambda>val mag. fadd binary64 val mag) (fzero binary64) mag_list)
          (length mag_list)"
    by (simp only: nth_Cons_0 length_Cons list.size One_nat_def zero_less_Suc simp_thms)
  moreover have "Finite (5104079577686563 / 2251799813685248) \<noteq>
      Finite (2552039788843281 / 1125899906842624)"
    by simp
  ultimately show ?thesis
    by (simp only: tremors_average tremors_average_backwards simp_thms)
qed

section \<open>Reordering the input\<close>

text \<open>
  Claim C9. Let \<open>p\<close> be a permutation of \<open>c\<close>, and let \<open>get_magnitudes_per_year\<close>
  return on \<open>c\<close>. Then it returns on \<open>p\<close> as well, both groupings have the same set of
  years as keys, and for each year the list of the grouping of \<open>p\<close> is the magnitudes of
  the records of that year in the order of \<open>p\<close>, the list of the grouping of \<open>c\<close> the
  same magnitudes in the order of \<open>c\<close>: the two lists agree as multisets.
\<close>

theorem get_magnitudes_per_year_permutation:
  assumes "mset p = mset c" and "get_magnitudes_per_year fts c = Inr gc"
  shows "\<exists>gp. get_magnitudes_per_year fts p = Inr gp \<and>
           set (dict_keys gp) = set (dict_keys gc) \<and>
           (\<forall>y\<in>set (dict_keys gp).
              dict_get gp y = Inr (magnitudes_in_year fts y p) \<and>
              dict_get gc y = Inr (magnitudes_in_year fts y c) \<and>
              mset (magnitudes_in_year fts y p) = mset (magnitudes_in_year fts y c))"
proof -
  from assms(1) have sets: "set p = set c" by (rule mset_eq_setD)
  have years: "\<exists>y. get_year fts q = Inr y" if "q \<in> set p" for q
  proof -
    from that sets have "q \<in> set c" by simp
    with assms(2) show ?thesis
      by (auto simp: get_magnitudes_per_year_def dest: loop_all_years)
  qed
  have "\<exists>gp. get_magnitudes_per_year_loop fts [] p = Inr gp"
    by (rule loop_returns) (rule years)
  then obtain gp where gp: "get_magnitudes_per_year fts p = Inr gp"
    unfolding get_magnitudes_per_year_def by (rule exE)
  have "Inr ` set (dict_keys gp) = (Inr ` set (dict_keys gc) :: (py_error + int) set)"
    by (simp add: grouping_keys [OF gp] grouping_keys [OF assms(2)] sets)
  then have keys: "set (dict_keys gp) = set (dict_keys gc)"
    by (simp add: inj_image_eq_iff)
  have "dict_get gp y = Inr (magnitudes_in_year fts y p) \<and>
        dict_get gc y = Inr (magnitudes_in_year fts y c) \<and>
        mset (magnitudes_in_year fts y p) = mset (magnitudes_in_year fts y c)"
    if y: "y \<in> set (dict_keys gp)" for y
  proof -
    from y have "y \<in> set (sort (dict_keys gp))" by simp
    from grouping_lookup_sorted [OF gp this]
    have "dict_get gp y = Inr (magnitudes_in_year fts y p)"
      by (simp add: dict_get_def)
    moreover from y keys have "y \<in> set (sort (dict_keys gc))" by simp
    from grouping_lookup_sorted [OF assms(2) this]
    have "dict_get gc y = Inr (magnitudes_in_year fts y c)"
      by (simp add: dict_get_def)
    moreover have "mset (magnitudes_in_year fts y p) = mset (magnitudes_in_year fts y c)"
      by (simp add: assms(1))
    ultimately show ?thesis by simp
  qed
  with gp keys show ?thesis by blast
qed

text \<open>The example document read backwards.\<close>

lemma reversed_grouping:
  "get_magnitudes_per_year fromtimestamp_utc [quake_c, quake_b, quake_a] =
     Inr [(2002, [4.1]), (2001, [4.1, 2.5])]"
  by (simp add: get_magnitudes_per_year_def add_quake_def dict_contains_def dict_get_def
      year_a year_b year_c mag_abc)

theorem get_magnitudes_per_year_permutation_witness:
  "mset [quake_c, quake_b, quake_a] = mset [quake_a, quake_b, quake_c] \<and>
   get_magnitudes_per_year fromtimestamp_utc [quake_a, quake_b, quake_c] =
     Inr [(2001, [2.5, 4.1]), (2002, [4.1])] \<and>
   get_magnitudes_per_year fromtimestamp_utc [quake_c, quake_b, quake_a] =
     Inr [(2002, [4.1]), (2001, [4.1, 2.5])] \<and>
   set (dict_keys [(2002::int, [4.1::real]), (2001, [4.1, 2.5])]) =
     set (dict_keys [(2001::int, [2.5, 4.1::real]), (2002, [4.1])]) \<and>
   magnitudes_in_year fromtimestamp_utc 2001 [quake_c, quake_b, quake_a] = [4.1, 2.5] \<and>
   magnitudes_in_year fromtimestamp_utc 2001 [quake_a, quake_b, quake_c] = [2.5, 4.1]"
proof -
  have perm: "mset [quake_c, quake_b, quake_a] = mset [quake_a, quake_b, quake_c]"
    by (simp add: add_mset_commute)
  from get_magnitudes_per_year_permutation [OF perm three_quakes_grouping]
  have "set (dict_keys [(2002::int, [4.1::real]), (2001, [4.1, 2.5])]) =
     set (dict_keys [(2001::int, [2.5, 4.1::real]), (2002, [4.1])])"
    by (simp add: reversed_grouping)
  with perm show ?thesis
    by (simp add: three_quakes_grouping reversed_grouping year_a year_b year_c mag_abc)
qed

section \<open>No division by zero\<close>

text \<open>
  Claim C10. Every list of magnitudes in the dictionary that \<open>get_magnitudes_per_year\<close>
  returns is non-empty: a year enters the dictionary with a list of one magnitude, and
  a list already there only gets longer. So the division by \<open>len(mag_list)\<close> in
  \<open>plot_average_magnitude_per_year\<close> never raises \<open>ZeroDivisionError\<close>.
\<close>

theorem magnitude_lists_nonempty:
  "(\<forall>g. get_magnitudes_per_year fts qs = Inr g \<longrightarrow> (\<forall>(y, mag_list)\<in>set g. mag_list \<noteq> [])) \<and>
   plot_average_magnitude_per_year ar fts qs \<noteq> Inl ZeroDivisionError"
proof
  show "\<forall>g. get_magnitudes_per_year fts qs = Inr g \<longrightarrow> (\<forall>(y, mag_list)\<in>set g. mag_list \<noteq> [])"
  proof (intro allI impI)
    fix g assume "get_magnitudes_per_year fts qs = Inr g"
    then have "\<forall>ms\<in>snd ` set g. ms \<noteq> []"
      unfolding get_magnitudes_per_year_def by (rule loop_nonempty_lists) simp
    then show "\<forall>(y, mag_list)\<in>set g. mag_list \<noteq> []" by auto
  qed
  show "plot_average_magnitude_per_year ar fts qs \<noteq> Inl ZeroDivisionError"
    by (auto dest: plot_average_raises)
qed

theorem magnitude_lists_nonempty_witness:
  "get_magnitudes_per_year fromtimestamp_utc [quake_a, quake_b, quake_c] =
     Inr [(2001, [2.5, 4.1]), (2002, [4.1])] \<and>
   [2.5, 4.1::real] \<noteq> [] \<and> [4.1::real] \<noteq> [] \<and>
   plot_average_magnitude_per_year binary64 fromtimestamp_utc [quake_a, quake_b, quake_c] \<noteq>
     Inl ZeroDivisionError"
  using magnitude_lists_nonempty
    [where ar = binary64 and fts = fromtimestamp_utc and qs = "[quake_a, quake_b, quake_c]"]
  by (simp add: three_quakes_grouping)

section \<open>The year of an earthquake\<close>

text \<open>
  Claim C6. \<open>get_year\<close> divides the time stamp by 1000 and leaves the rest to the
  library. Provided \<open>date.fromtimestamp\<close> reads only the whole seconds of its argument,
  rounding down, the year \<open>get_year\<close> returns is the year of the date that the library,
  in the time zone of the machine, gives for the whole second
  \<open>floor (timestamp / 1000)\<close>, which is \<open>timestamp div 1000\<close>; where the library raises, so
  does \<open>get_year\<close>.
\<close>

theorem get_year_floor_seconds:
  assumes "\<And>t. fromtimestamp t = fromtimestamp (of_int \<lfloor>t\<rfloor>)"
  shows "get_year fromtimestamp q =
           (case fromtimestamp (of_int (time (properties q) div 1000)) of
              None \<Rightarrow> Inl FromtimestampError
            | Some d \<Rightarrow> Inr (year d))"
proof -
  have "\<lfloor>real_of_int (time (properties q)) / 1000\<rfloor> = time (properties q) div 1000"
    using floor_divide_of_int_eq [of "time (properties q)" 1000, where ?'a = real] by simp
  with assms [of "real_of_int (time (properties q)) / 1000"]
  have "fromtimestamp (real_of_int (time (properties q)) / 1000) =
        fromtimestamp (of_int (time (properties q) div 1000))"
    by simp
  then show ?thesis
    by (simp add: get_year_def)
qed

text \<open>
  The UTC machine rounds down, and the last millisecond of the year 2000 is still in 2000.
\<close>

lemma fromtimestamp_utc_floor:
  "fromtimestamp_utc t = fromtimestamp_utc (of_int \<lfloor>t\<rfloor>)"
  by (simp add: fromtimestamp_utc_def)

lemma new_year:
  "fromtimestamp_utc 978307199 = Some \<lparr>year = 2000, month = 12, day = 31\<rparr>"
  "fromtimestamp_utc 978307200 = Some \<lparr>year = 2001, month = 1, day = 1\<rparr>"
  by code_simp+

theorem get_year_floor_seconds_witness:
  "time (properties quake_eve) = 978307199999 \<and>
   time (properties quake_eve) div 1000 = 978307199 \<and>
   fromtimestamp_utc 978307199 = Some \<lparr>year = 2000, month = 12, day = 31\<rparr> \<and>
   fromtimestamp_utc 978307200 = Some \<lparr>year = 2001, month = 1, day = 1\<rparr> \<and>
   get_year fromtimestamp_utc quake_eve = Inr 2000"
proof -
  have t: "time (properties quake_eve) = 978307199999"
    by (simp add: quake_eve_def)
  from get_year_floor_seconds [of fromtimestamp_utc quake_eve, OF fromtimestamp_utc_floor]
  have "get_year fromtimestamp_utc quake_eve = Inr 2000"
    by (simp add: t new_year)
  with t show ?thesis
    by (simp add: new_year)
qed

section \<open>No earthquakes at all\<close>

text \<open>
  Claim C4, as the program has it. On an input without records the grouping is the empty
  dictionary and \<open>plot_average_magnitude_per_year\<close> raises nothing: it hands the plot an
  empty list of years and an empty list of values.
\<close>

theorem plot_average_magnitude_per_year_empty:
  "get_magnitudes_per_year fts [] = Inr [] \<and>
   plot_average_magnitude_per_year ar fts [] = Inr ([], [])"
  by (simp add: plot_average_magnitude_per_year_def get_magnitudes_per_year_def dict_keys_def)

text \<open>On the UTC machine the call on the empty input is not a failure.\<close>

theorem plot_average_magnitude_per_year_empty_counterexample:
  "\<not> isl (plot_average_magnitude_per_year binary64 fromtimestamp_utc [])"
  by (simp add: plot_average_magnitude_per_year_def get_magnitudes_per_year_def dict_keys_def)

end
